theory Spec2Isabelle
  imports Complex_Main "HOL-Library.Sublist"
begin

section \<open>Data model\<close>

text \<open>
  An intent is an opaque player action: a kind tag, the originating client and a
  kind-specific payload. None of the turn-synchronisation code looks inside it.
\<close>

datatype intent = Intent (kind: string) (clientID: string) (payload: string)

text \<open>
  A \<open>Turn\<close> object: \<open>turnNumber\<close>, \<open>intents\<close> and the optional \<open>hash\<close>
  (a JavaScript number, or absent).
\<close>

record turn =
  turnNumber :: nat
  intents :: "intent list"
  hash :: "int option"

text \<open>Messages from a turn source to the client (\<open>ServerMessage\<close>).\<close>

datatype serverMessage =
    StartMsg "turn list"
  | TurnMsg turn
  | DesyncMsg (desyncTurn: nat) (correctHash: int) (clientsWithCorrectHash: nat)
      (totalActiveClients: nat) (yourHash: int)
  | ErrorMsg string string

text \<open>Messages from the client to a turn source (\<open>ClientMessage\<close>).\<close>

datatype clientMessage =
    IntentMsg intent
  | HashMsg nat int
  | WinnerMsg string
  | PingMsg
  | JoinMsg nat

text \<open>The enum \<open>ReplaySpeedMultiplier\<close> and the numeric value of each member.\<close>

datatype ReplaySpeedMultiplier = Slow | Normal | Fast | Fastest

fun multiplierValue :: "ReplaySpeedMultiplier \<Rightarrow> rat" where
  "multiplierValue Slow = 2"
| "multiplierValue Normal = 1"
| "multiplierValue Fast = 1 / 2"
| "multiplierValue Fastest = 0"

definition defaultReplaySpeedMultiplier :: ReplaySpeedMultiplier where
  "defaultReplaySpeedMultiplier = Normal"

section \<open>LocalServer\<close>

text \<open>
  What the server hands to its two callbacks, in call order: \<open>clientConnect()\<close> and
  \<open>clientMessage(msg)\<close>.
\<close>

datatype clientCall = ClientConnect | ClientMessage serverMessage

datatype error = MissingGameStartInfo | TypeError | InvalidStateError

text \<open>
  A method either returns or throws; in both cases the fields keep whatever was
  assigned before, so the state after the call is part of either outcome.
\<close>

datatype 'a outcome = Return 'a | Throw error 'a

fun stateOf :: "'a outcome \<Rightarrow> 'a" where
  "stateOf (Return s) = s"
| "stateOf (Throw e s) = s"

text \<open>
  The fields of \<open>LocalServer\<close>. \<open>gameRecord\<close> is \<open>lobbyConfig.gameRecord\<close>, given as
  the turn list that \<open>decompressGameRecord\<close> yields for it (\<open>None\<close> when the record is
  undefined); \<open>hasGameStartInfo\<close> says whether \<open>lobbyConfig.gameStartInfo\<close> is defined;
  \<open>turnIntervalMs\<close> is \<open>lobbyConfig.serverConfig.turnIntervalMs()\<close>. The field
  \<open>this.intents\<close> is called \<open>pendingIntents\<close> here, because \<open>intents\<close> already names
  the field of a turn. \<open>timerRunning\<close> says whether \<open>turnCheckInterval\<close> is set and
  not cleared. \<open>outputs\<close> lists the callback calls made so far and \<open>archived\<close> the turn
  lists handed to \<open>createPartialGameRecord\<close> for upload.
\<close>

record localServer =
  gameRecord :: "turn list option"
  hasGameStartInfo :: bool
  isReplay :: bool
  turnIntervalMs :: int
  replayTurns :: "turn list"
  turns :: "turn list"
  pendingIntents :: "intent list"
  startedAt :: int
  paused :: bool
  replaySpeedMultiplier :: ReplaySpeedMultiplier
  winner :: "string option"
  turnsExecuted :: nat
  turnStartTime :: int
  timerRunning :: bool
  outputs :: "clientCall list"
  archived :: "turn list list"

text \<open>The constructor with the field initialisers of the class.\<close>

definition newLocalServer :: "turn list option \<Rightarrow> bool \<Rightarrow> int \<Rightarrow> bool \<Rightarrow> localServer" where
  "newLocalServer gameRec startInfo interval replay =
     \<lparr> gameRecord = gameRec, hasGameStartInfo = startInfo, isReplay = replay,
       turnIntervalMs = interval, replayTurns = [], turns = [], pendingIntents = [],
       startedAt = 0, paused = False, replaySpeedMultiplier = defaultReplaySpeedMultiplier,
       winner = None, turnsExecuted = 0, turnStartTime = 0, timerRunning = False,
       outputs = [], archived = [] \<rparr>"

definition pause :: "localServer \<Rightarrow> localServer" where
  "pause s = s\<lparr>paused := True\<rparr>"

definition resume :: "localServer \<Rightarrow> localServer" where
  "resume s = s\<lparr>paused := False\<rparr>"

definition turnComplete :: "localServer \<Rightarrow> localServer" where
  "turnComplete s = s\<lparr>turnsExecuted := turnsExecuted s + 1\<rparr>"

text \<open>
  \<open>endGame\<close>: clear the timer; nothing more on a replay; otherwise build the record
  from the committed turns (throwing when \<open>gameStartInfo\<close> is missing) and hand it to
  validation and upload, which are outside this model.
\<close>

definition endGame :: "localServer \<Rightarrow> localServer outcome" where
  "endGame s =
     (let s1 = s\<lparr>timerRunning := False\<rparr> in
      if isReplay s1 then Return s1
      else if \<not> hasGameStartInfo s1 then Throw MissingGameStartInfo s1
      else Return (s1\<lparr>archived := archived s1 @ [turns s1]\<rparr>))"

text \<open>
  \<open>endTurn\<close>: nothing while paused; with a non-empty \<open>replayTurns\<close> either end the
  game (all archived turns committed) or take the intents of the archived turn at index
  \<open>turns.length\<close>; then seal \<open>{turnNumber: turns.length, intents}\<close>, push it, reset the
  intent buffer to a fresh empty array and send the turn to the client.
\<close>

definition endTurn :: "localServer \<Rightarrow> localServer outcome" where
  "endTurn s =
     (if paused s then Return s
      else if length (replayTurns s) > 0 \<and> length (turns s) \<ge> length (replayTurns s)
      then endGame s
      else
        let s1 = (if length (replayTurns s) > 0
                  then s\<lparr>pendingIntents := intents (replayTurns s ! length (turns s))\<rparr>
                  else s);
            pastTurn = \<lparr>turnNumber = length (turns s1), intents = pendingIntents s1,
                        hash = None\<rparr>
        in Return (s1\<lparr>turns := turns s1 @ [pastTurn], pendingIntents := [],
                      outputs := outputs s1 @ [ClientMessage (TurnMsg pastTurn)]\<rparr>))"

text \<open>
  The body of the 5 ms interval callback set up in \<open>start\<close>. \<open>Date.now()\<close> is read
  twice, once in the condition (\<open>now1\<close>) and once for \<open>turnStartTime\<close> (\<open>now2\<close>).
\<close>

definition turnCheck :: "int \<Rightarrow> int \<Rightarrow> localServer \<Rightarrow> localServer outcome" where
  "turnCheck now1 now2 s =
     (let interval = of_int (turnIntervalMs s) * multiplierValue (replaySpeedMultiplier s) in
      if turnsExecuted s = length (turns s)
         \<and> of_int now1 > of_int (turnStartTime s) + interval
      then endTurn (s\<lparr>turnStartTime := now2\<rparr>)
      else Return s)"

text \<open>The handler registered for \<open>ReplaySpeedChangeEvent\<close>.\<close>

definition onReplaySpeedChange :: "ReplaySpeedMultiplier \<Rightarrow> localServer \<Rightarrow> localServer" where
  "onReplaySpeedChange m s = s\<lparr>replaySpeedMultiplier := m\<rparr>"

text \<open>
  \<open>start\<close>: arm the timer, record the start time, call \<open>clientConnect\<close>, load the
  archived turns when there is a game record, throw when \<open>gameStartInfo\<close> is missing,
  and send the start message with an empty turn list.
\<close>

definition start :: "int \<Rightarrow> localServer \<Rightarrow> localServer outcome" where
  "start now s =
     (let s1 = s\<lparr>timerRunning := True, startedAt := now,
                  outputs := outputs s @ [ClientConnect]\<rparr>;
          s2 = (case gameRecord s1 of Some r \<Rightarrow> s1\<lparr>replayTurns := r\<rparr> | None \<Rightarrow> s1)
      in if \<not> hasGameStartInfo s2 then Throw MissingGameStartInfo s2
         else Return (s2\<lparr>outputs := outputs s2 @ [ClientMessage (StartMsg [])]\<rparr>))"

text \<open>
  \<open>onMessage\<close>. The test \<open>!archivedHash\<close> is JavaScript truthiness on
  \<open>number | undefined\<close>: it succeeds for a missing hash and for the number 0.
  Indexing \<open>turns\<close> or \<open>replayTurns\<close> past the end yields \<open>undefined\<close>, whose property
  access throws a TypeError before anything is assigned.
\<close>

definition onMessage :: "clientMessage \<Rightarrow> localServer \<Rightarrow> localServer outcome" where
  "onMessage clientMsg s =
     (case clientMsg of
        IntentMsg i \<Rightarrow>
          if gameRecord s \<noteq> None then Return s
          else if paused s then Return s
          else Return (s\<lparr>pendingIntents := pendingIntents s @ [i]\<rparr>)
      | HashMsg n h \<Rightarrow>
          if gameRecord s = None then
            (if n mod 100 = 0 then
               (if n < length (turns s)
                then Return (s\<lparr>turns := (turns s)[n := (turns s ! n)\<lparr>hash := Some h\<rparr>]\<rparr>)
                else Throw TypeError s)
             else Return s)
          else if n \<ge> length (replayTurns s) then Throw TypeError s
          else
            (case hash (replayTurns s ! n) of
               None \<Rightarrow> Return s
             | Some archivedHash \<Rightarrow>
                 if archivedHash = 0 then Return s
                 else if archivedHash \<noteq> h
                 then Return (s\<lparr>outputs := outputs s @
                        [ClientMessage (DesyncMsg n archivedHash 0 1 h)]\<rparr>)
                 else Return s)
      | WinnerMsg w \<Rightarrow> Return (s\<lparr>winner := Some w\<rparr>)
      | PingMsg \<Rightarrow> Return s
      | JoinMsg n \<Rightarrow> Return s)"

text \<open>
  Everything that can happen to a LocalServer: its public methods, the timer callback
  (which only fires while the timer is armed) and the speed-change event.
\<close>

datatype event =
    StartEv int
  | TimerFired int int
  | PauseEv
  | ResumeEv
  | MessageEv clientMessage
  | TurnCompleteEv
  | ReplaySpeedChangeEv ReplaySpeedMultiplier
  | EndGameEv

fun handle :: "event \<Rightarrow> localServer \<Rightarrow> localServer outcome" where
  "handle (StartEv now) s = start now s"
| "handle (TimerFired now1 now2) s = (if timerRunning s then turnCheck now1 now2 s else Return s)"
| "handle PauseEv s = Return (pause s)"
| "handle ResumeEv s = Return (resume s)"
| "handle (MessageEv m) s = onMessage m s"
| "handle TurnCompleteEv s = Return (turnComplete s)"
| "handle (ReplaySpeedChangeEv m) s = Return (onReplaySpeedChange m s)"
| "handle EndGameEv s = endGame s"

text \<open>
  A run: events handled one after the other. An exception leaves the handler but not
  the server, so the next event meets the state the throwing call left behind.
\<close>

fun run :: "event list \<Rightarrow> localServer \<Rightarrow> localServer" where
  "run [] s = s"
| "run (e # es) s = run es (stateOf (handle e s))"

text \<open>The turns sent to the client so far, in order.\<close>

fun emittedTurns :: "clientCall list \<Rightarrow> turn list" where
  "emittedTurns [] = []"
| "emittedTurns (ClientMessage (TurnMsg t) # os) = t # emittedTurns os"
| "emittedTurns (_ # os) = emittedTurns os"

text \<open>The desync reports sent to the client so far, in order.\<close>

fun desyncReports :: "clientCall list \<Rightarrow> serverMessage list" where
  "desyncReports [] = []"
| "desyncReports (ClientMessage (DesyncMsg n c a b y) # os) =
     DesyncMsg n c a b y # desyncReports os"
| "desyncReports (_ # os) = desyncReports os"

section \<open>ClientGameRunner\<close>

text \<open>
  The calls the runner makes on its collaborators, in call order:
  \<open>renderer.initialize\<close>, \<open>input.initialize\<close>, \<open>worker.start\<close>,
  \<open>transport.connect\<close>, \<open>worker.sendTurn\<close>, \<open>transport.joinGame\<close>,
  \<open>showErrorModal\<close>, \<open>transport.turnComplete\<close>,
  \<open>eventBus.emit(new SendHashEvent(tick, hash))\<close>, \<open>gameView.update\<close>,
  \<open>renderer.tick\<close>, \<open>saveGame\<close>'s record hand-over, \<open>worker.cleanup\<close>,
  \<open>transport.leaveGame\<close> and \<open>clearInterval(connectionCheckInterval)\<close>.
\<close>

datatype effect =
    RendererInitialize
  | InputInitialize
  | WorkerStart
  | TransportConnect
  | SendTurn turn
  | JoinGame nat
  | ShowErrorModal string
  | TurnCompleteCall
  | EmitSendHash nat int
  | GameViewUpdate
  | RendererTick
  | SaveGame string
  | WorkerCleanup
  | LeaveGame
  | ClearConnectionCheck

text \<open>
  The fields of \<open>ClientGameRunner\<close> that the message and update handlers touch.
  \<open>lobbyHasGameStartInfo\<close> says whether \<open>lobby.gameStartInfo\<close> is defined,
  \<open>myPlayerKnown\<close> whether \<open>myPlayer\<close> is not null, and
  \<open>connectionCheckInterval\<close> whether that field holds a timer (it is null until the
  timeout set by \<open>start\<close> fires, 20 seconds later).
\<close>

record clientGameRunner =
  turnsSeen :: nat
  hasJoined :: bool
  isActive :: bool
  lastMessageTime :: int
  connectionCheckInterval :: bool
  myPlayerKnown :: bool
  lobbyHasGameStartInfo :: bool
  effects :: "effect list"

definition newClientGameRunner :: "bool \<Rightarrow> int \<Rightarrow> clientGameRunner" where
  "newClientGameRunner startInfo now =
     \<lparr> turnsSeen = 0, hasJoined = False, isActive = False, lastMessageTime = now,
       connectionCheckInterval = False, myPlayerKnown = False,
       lobbyHasGameStartInfo = startInfo, effects = [] \<rparr>"

text \<open>
  \<open>ClientGameRunner.start\<close>, as far as the fields go: the runner becomes active, the
  renderer and the input handler are initialised, the worker is started with the update
  callback and the transport is connected with the two closures. The event-bus
  subscriptions and the keep-alive frame loop touch no field. \<open>armConnectionCheck\<close> is
  the timeout callback that installs the connection check 20 seconds after \<open>start\<close>.
\<close>

definition runnerStart :: "int \<Rightarrow> clientGameRunner \<Rightarrow> clientGameRunner" where
  "runnerStart now c =
     c\<lparr>isActive := True, lastMessageTime := now,
       effects := effects c @ [RendererInitialize, InputInitialize, WorkerStart,
                               TransportConnect]\<rparr>"

definition armConnectionCheck :: "clientGameRunner \<Rightarrow> clientGameRunner" where
  "armConnectionCheck c = c\<lparr>connectionCheckInterval := True\<rparr>"

text \<open>The turns passed to \<open>worker.sendTurn\<close>, in order.\<close>

fun sentTurns :: "effect list \<Rightarrow> turn list" where
  "sentTurns [] = []"
| "sentTurns (SendTurn t # es) = t # sentTurns es"
| "sentTurns (_ # es) = sentTurns es"

text \<open>
  The inner loop of the start handler:
  \<^verbatim>\<open>while (turn.turnNumber - 1 > this.turnsSeen) { sendTurn({turnNumber: turnsSeen, intents: []}); turnsSeen++ }\<close>
\<close>

function fillGap :: "nat \<Rightarrow> clientGameRunner \<Rightarrow> clientGameRunner" where
  "fillGap n c =
     (if int n - 1 > int (turnsSeen c)
      then fillGap n
             (c\<lparr>effects := effects c @
                    [SendTurn \<lparr>turnNumber = turnsSeen c, intents = [], hash = None\<rparr>],
                turnsSeen := turnsSeen c + 1\<rparr>)
      else c)"
  by pat_completeness auto
termination
  by (relation "measure (\<lambda>(n, c). n - turnsSeen c)") auto

declare fillGap.simps [simp del]

text \<open>
  The \<open>for (const turn of message.turns)\<close> loop of the start handler: \<open>applyTurn\<close>
  is its body (\<open>continue\<close> leaves the runner as it is), \<open>applyBatch\<close> the loop.
\<close>

definition applyTurn :: "turn \<Rightarrow> clientGameRunner \<Rightarrow> clientGameRunner" where
  "applyTurn t c =
     (if turnNumber t < turnsSeen c then c
      else
        let c1 = fillGap (turnNumber t) c
        in c1\<lparr>effects := effects c1 @ [SendTurn t], turnsSeen := turnsSeen c1 + 1\<rparr>)"

primrec applyBatch :: "turn list \<Rightarrow> clientGameRunner \<Rightarrow> clientGameRunner" where
  "applyBatch [] c = c"
| "applyBatch (t # ts) c = applyBatch ts (applyTurn t c)"

text \<open>The \<open>onmessage\<close> closure of \<open>ClientGameRunner.start\<close>; \<open>now\<close> is \<open>Date.now()\<close>.\<close>

definition onmessage :: "int \<Rightarrow> serverMessage \<Rightarrow> clientGameRunner \<Rightarrow> clientGameRunner outcome" where
  "onmessage now message c0 =
     (let c = c0\<lparr>lastMessageTime := now\<rparr> in
      case message of
        StartMsg ts \<Rightarrow> Return (applyBatch ts (c\<lparr>hasJoined := True\<rparr>))
      | DesyncMsg n ch cw ta yh \<Rightarrow>
          if \<not> lobbyHasGameStartInfo c then Throw MissingGameStartInfo c
          else Return (c\<lparr>effects := effects c @ [ShowErrorModal ''desync from server'']\<rparr>)
      | ErrorMsg e m \<Rightarrow> Return (c\<lparr>effects := effects c @ [ShowErrorModal e]\<rparr>)
      | TurnMsg t \<Rightarrow>
          if \<not> hasJoined c then Return (c\<lparr>effects := effects c @ [JoinGame 0]\<rparr>)
          else if turnsSeen c \<noteq> turnNumber t then Return c
          else Return (c\<lparr>effects := effects c @ [SendTurn t], turnsSeen := turnsSeen c + 1\<rparr>))"

text \<open>
  \<open>ClientGameRunner.stop\<close>: nothing on an inactive runner; otherwise the runner
  becomes inactive, the worker is cleaned up, the transport leaves the game, and the
  connection check is cleared and set to null if it is set.
\<close>

definition stop :: "clientGameRunner \<Rightarrow> clientGameRunner" where
  "stop c =
     (if \<not> isActive c then c
      else
        let c1 = c\<lparr>isActive := False, effects := effects c @ [WorkerCleanup, LeaveGame]\<rparr>
        in if connectionCheckInterval c1
           then c1\<lparr>connectionCheckInterval := False,
                   effects := effects c1 @ [ClearConnectionCheck]\<rparr>
           else c1)"

text \<open>
  \<open>ClientGameRunner.saveGame\<close>: nothing without a player, otherwise the record for the
  winner is handed to the local statistics.
\<close>

definition saveGame :: "string \<Rightarrow> clientGameRunner \<Rightarrow> clientGameRunner outcome" where
  "saveGame w c =
     (if \<not> myPlayerKnown c then Return c
      else if \<not> lobbyHasGameStartInfo c then Throw MissingGameStartInfo c
      else Return (c\<lparr>effects := effects c @ [SaveGame w]\<rparr>))"

text \<open>
  What the worker passes to the callback given to \<open>worker.start\<close>: an error update, or
  the view data of one tick with its hash updates \<open>(tick, hash)\<close> and win updates.
\<close>

datatype gameUpdate =
    ErrorUpdate string
  | GameUpdateViewData (hashUpdates: "(nat \<times> int) list") (winUpdates: "string list")

text \<open>The callback given to \<open>worker.start\<close>.\<close>

definition onWorkerUpdate :: "gameUpdate \<Rightarrow> clientGameRunner \<Rightarrow> clientGameRunner outcome" where
  "onWorkerUpdate gu c =
     (if \<not> lobbyHasGameStartInfo c then Throw MissingGameStartInfo c
      else case gu of
        ErrorUpdate errMsg \<Rightarrow>
          Return (stop (c\<lparr>effects := effects c @ [ShowErrorModal errMsg]\<rparr>))
      | GameUpdateViewData hs ws \<Rightarrow>
          let c1 = c\<lparr>effects := effects c @ [TurnCompleteCall]\<rparr>;
              c2 = c1\<lparr>effects := effects c1 @ map (\<lambda>(tick, h). EmitSendHash tick h) hs\<rparr>;
              c3 = c2\<lparr>effects := effects c2 @ [GameViewUpdate, RendererTick]\<rparr>
          in (case ws of [] \<Rightarrow> Return c3 | w # _ \<Rightarrow> saveGame w c3))"

section \<open>Transport\<close>

































section \<open>Notions used in the statements\<close>

text \<open>What may never change once a turn is committed: its number and its intents.\<close>

definition turnContent :: "turn \<Rightarrow> nat \<times> intent list" where
  "turnContent t = (turnNumber t, intents t)"

text \<open>A single-player server (turn interval 100 ms) right after \<open>start\<close> at time 0.\<close>

definition exSingle :: localServer where
  "exSingle = stateOf (start 0 (newLocalServer None True 100 False))"

text \<open>
  What holds of a replay of the archived turns \<open>r\<close> at every moment: the archived list
  is loaded (or the server has not started, is not ticking and has committed nothing),
  no more turns are committed than archived, the committed intents are those archived at
  the same index, and the turns sent to the client are the committed ones.
\<close>

definition replayInv :: "turn list \<Rightarrow> localServer \<Rightarrow> bool" where
  "replayInv r s =
     (gameRecord s = Some r
      \<and> (replayTurns s = r \<or> (replayTurns s = [] \<and> \<not> timerRunning s \<and> turns s = []))
      \<and> length (turns s) \<le> length r
      \<and> map intents (turns s) = map intents (take (length (turns s)) r)
      \<and> map turnContent (emittedTurns (outputs s)) = map turnContent (turns s))"

text \<open>A replay of an archive with no turns at all, right after \<open>start\<close> at time 0.\<close>

definition exEmptyReplay :: localServer where
  "exEmptyReplay = stateOf (start 0 (newLocalServer (Some []) True 100 True))"

text \<open>
  A replay of a one-turn archive: the events are start, a timer callback that emits
  turn 0, the client's turn-complete, and a second timer callback.
\<close>

definition exArchive :: "turn list" where
  "exArchive = [\<lparr>turnNumber = 0, intents = [Intent ''spawn'' ''c1'' ''tile 7''], hash = Some 5\<rparr>]"

definition exReplayEvents :: "event list" where
  "exReplayEvents = [StartEv 0, TimerFired 101 102, TurnCompleteEv, TimerFired 300 301]"

text \<open>
  A replay whose archived turn 0 carries the hash 0, after \<open>start\<close> and the timer
  callback that emits turn 0.
\<close>

definition exZeroHashReplay :: localServer where
  "exZeroHashReplay =
     run [StartEv 0, TimerFired 101 102]
       (newLocalServer (Some [\<lparr>turnNumber = 0, intents = [], hash = Some 0\<rparr>]) True 100 True)"

text \<open>A runner that has just been constructed, with \<open>gameStartInfo\<close> present.\<close>

definition exRunner :: clientGameRunner where
  "exRunner = newClientGameRunner True 0"

text \<open>An empty turn with the given number.\<close>

definition emptyTurn :: "nat \<Rightarrow> turn" where
  "emptyTurn n = \<lparr>turnNumber = n, intents = [], hash = None\<rparr>"







section \<open>LocalServer: emission, pause, numbering, replay, hashes\<close>

lemma emittedTurns_append [simp]:
  "emittedTurns (xs @ ys) = emittedTurns xs @ emittedTurns ys"
  by (induction xs rule: emittedTurns.induct) simp_all

lemma desyncReports_append [simp]:
  "desyncReports (xs @ ys) = desyncReports xs @ desyncReports ys"
  by (induction xs rule: desyncReports.induct) simp_all

lemma onMessage_keeps_emitted:
  "emittedTurns (outputs (stateOf (onMessage m s))) = emittedTurns (outputs s)
   \<and> length (turns (stateOf (onMessage m s))) = length (turns s)"
  by (cases m) (simp_all add: onMessage_def split: option.splits)

lemma endGame_keeps:
  "outputs (stateOf (endGame s)) = outputs s \<and> turns (stateOf (endGame s)) = turns s
   \<and> pendingIntents (stateOf (endGame s)) = pendingIntents s
   \<and> paused (stateOf (endGame s)) = paused s
   \<and> \<not> timerRunning (stateOf (endGame s))"
  by (simp add: endGame_def Let_def)

lemma start_keeps:
  "emittedTurns (outputs (stateOf (start now s))) = emittedTurns (outputs s)
   \<and> turns (stateOf (start now s)) = turns s
   \<and> pendingIntents (stateOf (start now s)) = pendingIntents s
   \<and> paused (stateOf (start now s)) = paused s"
  by (simp add: start_def Let_def split: option.splits)

lemma endTurn_cases:
  "(stateOf (endTurn s) = s)
   \<or> (stateOf (endTurn s) = stateOf (endGame s) \<and> \<not> paused s \<and> replayTurns s \<noteq> []
        \<and> length (replayTurns s) \<le> length (turns s))
   \<or> (\<not> paused s \<and> (replayTurns s = [] \<or> length (turns s) < length (replayTurns s))
        \<and> (\<exists>t. t = \<lparr>turnNumber = length (turns s),
                       intents = (if replayTurns s = [] then pendingIntents s
                                  else intents (replayTurns s ! length (turns s))),
                       hash = None\<rparr>
              \<and> stateOf (endTurn s) = s\<lparr>turns := turns s @ [t], pendingIntents := [],
                                         outputs := outputs s @ [ClientMessage (TurnMsg t)]\<rparr>))"
  by (simp add: endTurn_def Let_def)

lemma turnCheck_cases:
  "turnCheck now1 now2 s = Return s
   \<or> (turnsExecuted s = length (turns s)
       \<and> of_int now1 > of_int (turnStartTime s)
            + of_int (turnIntervalMs s) * multiplierValue (replaySpeedMultiplier s)
       \<and> turnCheck now1 now2 s = endTurn (s\<lparr>turnStartTime := now2\<rparr>))"
  by (simp add: turnCheck_def Let_def)







lemma exSingle_eval:
  "exSingle = \<lparr> gameRecord = None, hasGameStartInfo = True, isReplay = False,
       turnIntervalMs = 100, replayTurns = [], turns = [], pendingIntents = [],
       startedAt = 0, paused = False, replaySpeedMultiplier = Normal,
       winner = None, turnsExecuted = 0, turnStartTime = 0, timerRunning = True,
       outputs = [ClientConnect, ClientMessage (StartMsg [])], archived = [] \<rparr>"
  by (simp add: exSingle_def start_def newLocalServer_def defaultReplaySpeedMultiplier_def Let_def)

lemma exSingle_tick:
  "handle (TimerFired 101 102) exSingle = Return (exSingle\<lparr>turns := [\<lparr>turnNumber = 0, intents = [], hash = None\<rparr>],
      turnStartTime := 102,
      outputs := [ClientConnect, ClientMessage (StartMsg []), ClientMessage (TurnMsg \<lparr>turnNumber = 0, intents = [], hash = None\<rparr>)]\<rparr>)"
  by (simp add: exSingle_eval turnCheck_def endTurn_def Let_def)

subsection \<open>Pause\<close>

lemma onMessage_paused:
  assumes "paused s"
  shows "paused (stateOf (onMessage m s))
         \<and> pendingIntents (stateOf (onMessage m s)) = pendingIntents s"
  using assms by (cases m) (simp_all add: onMessage_def split: option.splits)

lemma endTurn_paused: "paused s \<Longrightarrow> endTurn s = Return s"
  by (simp add: endTurn_def)

lemma paused_step:
  assumes "paused s" and "e \<noteq> ResumeEv"
  shows "paused (stateOf (handle e s))
         \<and> emittedTurns (outputs (stateOf (handle e s))) = emittedTurns (outputs s)
         \<and> length (turns (stateOf (handle e s))) = length (turns s)
         \<and> pendingIntents (stateOf (handle e s)) = pendingIntents s"
proof (cases e)
  case (StartEv now)
  then show ?thesis using assms start_keeps [of now s] by simp
next
  case (TimerFired now1 now2)
  have "endTurn (s\<lparr>turnStartTime := now2\<rparr>) = Return (s\<lparr>turnStartTime := now2\<rparr>)"
    using assms by (simp add: endTurn_paused)
  then show ?thesis using assms TimerFired turnCheck_cases [of now1 now2 s] by auto
next
  case (MessageEv m)
  then show ?thesis
    using assms onMessage_paused [of s m] onMessage_keeps_emitted [of m s] by simp
next
  case EndGameEv
  then show ?thesis using assms endGame_keeps [of s] by simp
qed (use assms in \<open>simp_all add: pause_def turnComplete_def onReplaySpeedChange_def\<close>)

lemma paused_run:
  assumes "paused s" and "ResumeEv \<notin> set es"
  shows "paused (run es s)
         \<and> emittedTurns (outputs (run es s)) = emittedTurns (outputs s)
         \<and> length (turns (run es s)) = length (turns s)
         \<and> pendingIntents (run es s) = pendingIntents s"
  using assms
proof (induction es arbitrary: s)
  case Nil
  then show ?case by simp
next
  case (Cons e es)
  from Cons.prems have ne: "e \<noteq> ResumeEv" and rest: "ResumeEv \<notin> set es" by auto
  from paused_step [OF Cons.prems(1) ne] Cons.IH [of "stateOf (handle e s)"] rest
  show ?case by simp
qed

text \<open>
  Claim C6. While the LocalServer is paused the emission step \<open>endTurn\<close> changes
  nothing, and an intent message leaves the whole server state as it was, so whatever
  happens later happens as if the intent had never been sent. Over any sequence of events
  without a resume, no turn is emitted or committed and the intent buffer stays as it was
  at the pause. After \<open>resume\<close> the server is not paused and \<open>endTurn\<close> seals and sends
  the next turn as usual (provided a replay has archived turns left).
\<close>

theorem C6_pause_is_hard_stop:
  assumes "paused s"
  shows "endTurn s = Return s
         \<and> handle (MessageEv (IntentMsg i)) s = Return s
         \<and> run later (stateOf (handle (MessageEv (IntentMsg i)) s)) = run later s
         \<and> (ResumeEv \<notin> set es \<longrightarrow>
              emittedTurns (outputs (run es s)) = emittedTurns (outputs s)
              \<and> length (turns (run es s)) = length (turns s)
              \<and> pendingIntents (run es s) = pendingIntents s)
         \<and> \<not> paused (stateOf (handle ResumeEv s))
         \<and> (replayTurns s = [] \<or> length (turns s) < length (replayTurns s) \<longrightarrow>
              emittedTurns (outputs (stateOf (endTurn (stateOf (handle ResumeEv s)))))
              = emittedTurns (outputs s) @
                  [\<lparr>turnNumber = length (turns s),
                    intents = (if replayTurns s = [] then pendingIntents s
                               else intents (replayTurns s ! length (turns s))),
                    hash = None\<rparr>])"
proof -
  have msg: "handle (MessageEv (IntentMsg i)) s = Return s"
    using assms by (simp add: onMessage_def)
  have resumed: "replayTurns s = [] \<or> length (turns s) < length (replayTurns s) \<Longrightarrow>
      emittedTurns (outputs (stateOf (endTurn (stateOf (handle ResumeEv s)))))
      = emittedTurns (outputs s) @
          [\<lparr>turnNumber = length (turns s),
            intents = (if replayTurns s = [] then pendingIntents s
                       else intents (replayTurns s ! length (turns s))),
            hash = None\<rparr>]"
    by (auto simp: resume_def endTurn_def Let_def)
  show ?thesis
    using assms msg resumed paused_run [of s es]
    by (simp add: endTurn_paused resume_def)
qed

theorem C6_pause_is_hard_stop_witness:
  "paused (pause exSingle)
   \<and> ResumeEv \<notin> set [MessageEv (IntentMsg (Intent ''attack'' ''c1'' ''x'')), TimerFired 500 500]
   \<and> emittedTurns (outputs (run [MessageEv (IntentMsg (Intent ''attack'' ''c1'' ''x'')), TimerFired 500 500]
                                 (pause exSingle)))
     = emittedTurns (outputs (pause exSingle))
   \<and> replayTurns (pause exSingle) = []
   \<and> emittedTurns (outputs (stateOf (endTurn (stateOf (handle ResumeEv (pause exSingle))))))
     = [\<lparr>turnNumber = 0, intents = [], hash = None\<rparr>]"
  using C6_pause_is_hard_stop [of "pause exSingle"
          "Intent ''attack'' ''c1'' ''x''" "[]"
          "[MessageEv (IntentMsg (Intent ''attack'' ''c1'' ''x'')), TimerFired 500 500]"]
  by (simp add: exSingle_eval pause_def resume_def endTurn_def onMessage_def turnCheck_def Let_def)

subsection \<open>Numbering and immutability of committed turns\<close>

lemma hash_update_keeps_content:
  "n < length ts \<Longrightarrow> map turnContent (ts[n := (ts ! n)\<lparr>hash := h\<rparr>]) = map turnContent ts"
  by (induction ts arbitrary: n) (auto simp: turnContent_def split: nat.splits)

lemma onMessage_keeps_content:
  "map turnContent (turns (stateOf (onMessage m s))) = map turnContent (turns s)"
  by (cases m) (simp_all add: onMessage_def hash_update_keeps_content split: option.splits)

lemma handle_turns_step:
  "(map turnContent (turns (stateOf (handle e s))) = map turnContent (turns s)
      \<and> length (turns (stateOf (handle e s))) = length (turns s))
   \<or> (\<exists>its. turns (stateOf (handle e s))
          = turns s @ [\<lparr>turnNumber = length (turns s), intents = its, hash = None\<rparr>])"
proof (cases e)
  case (StartEv now)
  then show ?thesis using start_keeps [of now s] by simp
next
  case (TimerFired now1 now2)
  show ?thesis
  proof (cases "timerRunning s \<and> turnCheck now1 now2 s \<noteq> Return s")
    case False
    with TimerFired show ?thesis by auto
  next
    case True
    with turnCheck_cases [of now1 now2 s]
    have eq: "handle e s = endTurn (s\<lparr>turnStartTime := now2\<rparr>)"
      using TimerFired by auto
    from endTurn_cases [of "s\<lparr>turnStartTime := now2\<rparr>"] endGame_keeps [of "s\<lparr>turnStartTime := now2\<rparr>"]
    show ?thesis unfolding eq by auto
  qed
next
  case (MessageEv m)
  then show ?thesis
    using onMessage_keeps_content [of m s] onMessage_keeps_emitted [of m s] by simp
next
  case EndGameEv
  then show ?thesis using endGame_keeps [of s] by simp
qed (simp_all add: pause_def resume_def turnComplete_def onReplaySpeedChange_def)

lemma numbered_step:
  assumes "map turnNumber (turns s) = [0..<length (turns s)]"
  shows "map turnNumber (turns (stateOf (handle e s)))
         = [0..<length (turns (stateOf (handle e s)))]"
proof -
  have fst_content: "\<And>ts. map turnNumber ts = map fst (map turnContent ts)"
    by (simp add: turnContent_def comp_def)
  from handle_turns_step [of e s] show ?thesis
  proof
    assume "map turnContent (turns (stateOf (handle e s))) = map turnContent (turns s)
      \<and> length (turns (stateOf (handle e s))) = length (turns s)"
    with assms show ?thesis by (simp add: fst_content)
  next
    assume "\<exists>its. turns (stateOf (handle e s))
          = turns s @ [\<lparr>turnNumber = length (turns s), intents = its, hash = None\<rparr>]"
    with assms show ?thesis by auto
  qed
qed

lemma numbered_run:
  "map turnNumber (turns s) = [0..<length (turns s)] \<Longrightarrow>
   map turnNumber (turns (run es s)) = [0..<length (turns (run es s))]"
proof (induction es arbitrary: s)
  case Nil
  then show ?case by simp
next
  case (Cons e es)
  from Cons.IH [OF numbered_step [OF Cons.prems, of e]] show ?case by simp
qed

lemma content_prefix_step:
  "prefix (map turnContent (turns s)) (map turnContent (turns (stateOf (handle e s))))"
  using handle_turns_step [of e s] by auto

lemma content_prefix_run:
  "prefix (map turnContent (turns s)) (map turnContent (turns (run es s)))"
proof (induction es arbitrary: s)
  case Nil
  show ?case by simp
next
  case (Cons e es)
  from content_prefix_step [of s e] Cons.IH [of "stateOf (handle e s)"]
  show ?case by (auto intro: prefix_order.trans)
qed

text \<open>
  Claim C7. Every turn the LocalServer commits gets the number of turns committed before
  it: an event that lengthens the turn list appends exactly one turn, numbered with the
  old length. So after any run from a fresh server the committed turns are numbered
  0, 1, 2, ... without gap or duplicate. Once committed, the number and the intents of a
  turn stay: the numbers and intents of the turns committed at any moment are a prefix of
  those committed at any later moment (only the hash may be attached).
\<close>

theorem C7_turn_numbering:
  "(length (turns (stateOf (handle e s))) \<noteq> length (turns s) \<longrightarrow>
      (\<exists>t. turns (stateOf (handle e s)) = turns s @ [t] \<and> turnNumber t = length (turns s)))
   \<and> map turnNumber (turns (run es (newLocalServer gameRec startInfo interval replay)))
       = [0..<length (turns (run es (newLocalServer gameRec startInfo interval replay)))]
   \<and> prefix (map turnContent (turns s)) (map turnContent (turns (run es s)))"
proof (intro conjI impI)
  assume "length (turns (stateOf (handle e s))) \<noteq> length (turns s)"
  with handle_turns_step [of e s]
  show "\<exists>t. turns (stateOf (handle e s)) = turns s @ [t] \<and> turnNumber t = length (turns s)"
    by auto
next
  have "map turnNumber (turns (newLocalServer gameRec startInfo interval replay))
        = [0..<length (turns (newLocalServer gameRec startInfo interval replay))]"
    by (simp add: newLocalServer_def)
  from numbered_run [OF this]
  show "map turnNumber (turns (run es (newLocalServer gameRec startInfo interval replay)))
       = [0..<length (turns (run es (newLocalServer gameRec startInfo interval replay)))]" .
next
  show "prefix (map turnContent (turns s)) (map turnContent (turns (run es s)))"
    by (rule content_prefix_run)
qed

theorem C7_turn_numbering_witness:
  "length (turns (stateOf (handle (TimerFired 101 102) exSingle))) \<noteq> length (turns exSingle)
   \<and> (\<exists>t. turns (stateOf (handle (TimerFired 101 102) exSingle)) = turns exSingle @ [t]
          \<and> turnNumber t = length (turns exSingle))"
  using C7_turn_numbering [where e = "TimerFired 101 102" and s = exSingle and es = "[]"
          and gameRec = None and startInfo = True and interval = 100 and replay = False]
  by (simp add: exSingle_eval turnCheck_def endTurn_def Let_def)

subsection \<open>Replay\<close>

lemma take_Suc_intents:
  "k < length r \<Longrightarrow> map intents (take (Suc k) r) = map intents (take k r) @ [intents (r ! k)]"
  by (simp add: take_Suc_conv_app_nth)

lemma onMessage_replay_keeps:
  assumes "gameRecord s \<noteq> None"
  shows "turns (stateOf (onMessage m s)) = turns s
         \<and> gameRecord (stateOf (onMessage m s)) = gameRecord s
         \<and> replayTurns (stateOf (onMessage m s)) = replayTurns s
         \<and> timerRunning (stateOf (onMessage m s)) = timerRunning s"
  using assms by (cases m) (auto simp: onMessage_def split: option.splits)

lemma replayInv_endTurn:
  assumes "r \<noteq> []" and "replayInv r s" and "replayTurns s = r"
  shows "replayInv r (stateOf (endTurn s))"
proof (cases "paused s")
  case True
  with assms show ?thesis by (simp add: endTurn_paused)
next
  case False
  show ?thesis
  proof (cases "length r \<le> length (turns s)")
    case True
    with False assms have "endTurn s = endGame s" by (simp add: endTurn_def)
    with assms show ?thesis by (simp add: replayInv_def endGame_def Let_def)
  next
    case short: False
    with False assms show ?thesis
      by (simp add: replayInv_def endTurn_def Let_def take_Suc_intents turnContent_def)
  qed
qed

lemma replayInv_step:
  assumes "r \<noteq> []" and "replayInv r s"
  shows "replayInv r (stateOf (handle e s))"
proof (cases e)
  case (StartEv now)
  with assms show ?thesis by (simp add: replayInv_def start_def Let_def)
next
  case (TimerFired now1 now2)
  show ?thesis
  proof (cases "timerRunning s \<and> turnCheck now1 now2 s \<noteq> Return s")
    case False
    with TimerFired assms show ?thesis by auto
  next
    case True
    with turnCheck_cases [of now1 now2 s]
    have eq: "handle e s = endTurn (s\<lparr>turnStartTime := now2\<rparr>)"
      using TimerFired by auto
    from True assms have loaded: "replayTurns (s\<lparr>turnStartTime := now2\<rparr>) = r"
      by (auto simp: replayInv_def)
    from assms have "replayInv r (s\<lparr>turnStartTime := now2\<rparr>)"
      by (simp add: replayInv_def)
    from replayInv_endTurn [OF assms(1) this loaded] show ?thesis
      unfolding eq .
  qed
next
  case (MessageEv m)
  from assms have "gameRecord s \<noteq> None" by (simp add: replayInv_def)
  from onMessage_replay_keeps [OF this, of m] onMessage_keeps_emitted [of m s]
    onMessage_keeps_content [of m s] assms MessageEv
  show ?thesis by (simp add: replayInv_def)
next
  case EndGameEv
  with assms show ?thesis by (auto simp: replayInv_def endGame_def Let_def)
qed (use assms in \<open>simp_all add: replayInv_def pause_def resume_def turnComplete_def
       onReplaySpeedChange_def\<close>)

lemma replayInv_run:
  "r \<noteq> [] \<Longrightarrow> replayInv r s \<Longrightarrow> replayInv r (run es s)"
proof (induction es arbitrary: s)
  case Nil
  then show ?case by simp
next
  case (Cons e es)
  from Cons.IH [OF Cons.prems(1) replayInv_step [OF Cons.prems, of e]] show ?case by simp
qed

lemma replayInv_new: "replayInv r (newLocalServer (Some r) startInfo interval replay)"
  by (simp add: replayInv_def newLocalServer_def)

text \<open>
  Claim C8 at a replay whose archived turn list is empty, right after \<open>start\<close>: every
  archived turn (there is none) has been emitted, yet the next timer callback commits
  and sends turn 0, which has no counterpart at index 0 of the archive, and leaves the
  timer running instead of ending the game. The replay branch of \<open>endTurn\<close> is entered
  on \<open>replayTurns.length > 0\<close>, which an empty archive does not satisfy.
\<close>

theorem C8_empty_archive_keeps_emitting:
  "gameRecord exEmptyReplay = Some []
   \<and> replayTurns exEmptyReplay = []
   \<and> turns (stateOf (handle (TimerFired 101 102) exEmptyReplay))
       = [\<lparr>turnNumber = 0, intents = [], hash = None\<rparr>]
   \<and> emittedTurns (outputs (stateOf (handle (TimerFired 101 102) exEmptyReplay)))
       = [\<lparr>turnNumber = 0, intents = [], hash = None\<rparr>]
   \<and> timerRunning (stateOf (handle (TimerFired 101 102) exEmptyReplay))"
  by (simp add: exEmptyReplay_def start_def newLocalServer_def defaultReplaySpeedMultiplier_def
        turnCheck_def endTurn_def Let_def)

text \<open>
  Replay of a non-empty archived turn list, at every moment of any run of a fresh
  server: an intent message leaves the server unchanged; no more turns are committed than
  archived; the intents of committed turn N, and of the turn N sent to the client, are
  those stored at index N of the archived list; once as many turns are committed as
  archived, \<open>endTurn\<close> ends the game, which clears the timer and commits and sends
  nothing; and with the timer cleared a timer callback does nothing.
\<close>

theorem replay_follows_archive:
  assumes "r \<noteq> []"
    and "s = run es (newLocalServer (Some r) startInfo interval replay)"
  shows "handle (MessageEv (IntentMsg i)) s = Return s
         \<and> length (turns s) \<le> length r
         \<and> map intents (turns s) = map intents (take (length (turns s)) r)
         \<and> map intents (emittedTurns (outputs s))
             = map intents (take (length (emittedTurns (outputs s))) r)
         \<and> (length (turns s) = length r \<and> \<not> paused s \<longrightarrow>
              endTurn s = endGame s
              \<and> \<not> timerRunning (stateOf (endTurn s))
              \<and> turns (stateOf (endTurn s)) = turns s
              \<and> outputs (stateOf (endTurn s)) = outputs s)
         \<and> (\<not> timerRunning s \<longrightarrow> handle (TimerFired now1 now2) s = Return s)"
proof -
  have inv: "replayInv r s"
    unfolding assms(2) by (rule replayInv_run [OF assms(1) replayInv_new])
  then have rec: "gameRecord s = Some r" by (simp add: replayInv_def)
  have "map turnContent (emittedTurns (outputs s)) = map turnContent (turns s)"
    using inv by (simp add: replayInv_def)
  then have len: "length (emittedTurns (outputs s)) = length (turns s)"
    by (rule map_eq_imp_length_eq)
  have "map snd (map turnContent (emittedTurns (outputs s))) = map snd (map turnContent (turns s))"
    using inv by (simp add: replayInv_def)
  then have same: "map intents (emittedTurns (outputs s)) = map intents (turns s)"
    by (simp add: turnContent_def comp_def)
  have ended: "length (turns s) = length r \<and> \<not> paused s \<Longrightarrow>
      endTurn s = endGame s \<and> \<not> timerRunning (stateOf (endTurn s))
      \<and> turns (stateOf (endTurn s)) = turns s \<and> outputs (stateOf (endTurn s)) = outputs s"
  proof -
    assume a: "length (turns s) = length r \<and> \<not> paused s"
    with inv assms(1) have "replayTurns s = r" by (auto simp: replayInv_def)
    with a assms(1) have "endTurn s = endGame s" by (simp add: endTurn_def)
    then show ?thesis using endGame_keeps [of s] by simp
  qed
  have intent: "handle (MessageEv (IntentMsg i)) s = Return s"
    using rec by (simp add: onMessage_def)
  have bound: "length (turns s) \<le> length r
      \<and> map intents (turns s) = map intents (take (length (turns s)) r)"
    using inv by (simp add: replayInv_def)
  have sent: "map intents (emittedTurns (outputs s))
      = map intents (take (length (emittedTurns (outputs s))) r)"
    using bound len same by simp
  have idle: "\<not> timerRunning s \<longrightarrow> handle (TimerFired now1 now2) s = Return s"
    by simp
  from intent bound sent ended idle show ?thesis by blast
qed

lemma replay_follows_archive_example:
  "exArchive \<noteq> []
   \<and> map intents (emittedTurns (outputs
        (run exReplayEvents (newLocalServer (Some exArchive) True 100 True))))
     = map intents exArchive
   \<and> \<not> timerRunning (run exReplayEvents (newLocalServer (Some exArchive) True 100 True))"
  using replay_follows_archive [of exArchive
          "run exReplayEvents (newLocalServer (Some exArchive) True 100 True)"
          exReplayEvents True 100 True]
  by (simp add: exArchive_def exReplayEvents_def newLocalServer_def
        defaultReplaySpeedMultiplier_def start_def turnCheck_def endTurn_def endGame_def
        turnComplete_def Let_def)

subsection \<open>Hashes\<close>

lemma replay_hash_absent:
  assumes "gameRecord s \<noteq> None" and "n < length (replayTurns s)"
    and "hash (replayTurns s ! n) = None"
  shows "onMessage (HashMsg n h) s = Return s"
  using assms by (auto simp: onMessage_def)

lemma replay_hash_nonzero:
  assumes "gameRecord s \<noteq> None" and "n < length (replayTurns s)"
    and "hash (replayTurns s ! n) = Some a" and "a \<noteq> 0"
  shows "onMessage (HashMsg n h) s
         = Return (if a \<noteq> h
                   then s\<lparr>outputs := outputs s @ [ClientMessage (DesyncMsg n a 0 1 h)]\<rparr>
                   else s)"
  using assms by (auto simp: onMessage_def)

lemma exZeroHashReplay_eval:
  "exZeroHashReplay =
     \<lparr> gameRecord = Some [\<lparr>turnNumber = 0, intents = [], hash = Some 0\<rparr>],
       hasGameStartInfo = True, isReplay = True, turnIntervalMs = 100,
       replayTurns = [\<lparr>turnNumber = 0, intents = [], hash = Some 0\<rparr>],
       turns = [\<lparr>turnNumber = 0, intents = [], hash = None\<rparr>], pendingIntents = [],
       startedAt = 0, paused = False, replaySpeedMultiplier = Normal, winner = None,
       turnsExecuted = 0, turnStartTime = 102, timerRunning = True,
       outputs = [ClientConnect, ClientMessage (StartMsg []),
                  ClientMessage (TurnMsg \<lparr>turnNumber = 0, intents = [], hash = None\<rparr>)],
       archived = [] \<rparr>"
  by (simp add: exZeroHashReplay_def newLocalServer_def defaultReplaySpeedMultiplier_def
        start_def turnCheck_def endTurn_def Let_def)

text \<open>
  Claim C5 at a replay whose archived turn 0 carries the hash 0, when the client reports
  the hash 5 for turn 0: the archived hash is present and differs from the reported one,
  yet \<open>onMessage\<close> returns with the server unchanged and no desync message is among
  the messages sent to the client.
\<close>

theorem C5_zero_archived_hash_unreported:
  "gameRecord exZeroHashReplay \<noteq> None
   \<and> hash (replayTurns exZeroHashReplay ! 0) = Some 0
   \<and> onMessage (HashMsg 0 5) exZeroHashReplay = Return exZeroHashReplay
   \<and> desyncReports (outputs (stateOf (onMessage (HashMsg 0 5) exZeroHashReplay))) = []"
  by (simp add: exZeroHashReplay_eval onMessage_def)

text \<open>
  Claim C9. In single-player mode (no game record), a hash reported for a committed
  turn N is stored on that turn exactly when N is a multiple of 100: for such N the
  server afterwards differs only in that turn N carries the reported hash; for any other
  N the server is unchanged, the hash is dropped. In either case nothing is sent to the
  client, so no comparison result is ever reported.
\<close>

theorem C9_singleplayer_hash_sampling:
  assumes "gameRecord s = None" and "n < length (turns s)"
  shows "\<exists>s'. onMessage (HashMsg n h) s = Return s'
            \<and> (n mod 100 = 0 \<longrightarrow>
                  s' = s\<lparr>turns := (turns s)[n := (turns s ! n)\<lparr>hash := Some h\<rparr>]\<rparr>
                  \<and> hash (turns s' ! n) = Some h)
            \<and> (n mod 100 \<noteq> 0 \<longrightarrow> s' = s)
            \<and> outputs s' = outputs s"
  using assms by (simp add: onMessage_def)

theorem C9_singleplayer_hash_sampling_witness:
  "gameRecord (stateOf (handle (TimerFired 101 102) exSingle)) = None
   \<and> 0 < length (turns (stateOf (handle (TimerFired 101 102) exSingle)))
   \<and> (\<exists>s'. onMessage (HashMsg 0 7) (stateOf (handle (TimerFired 101 102) exSingle)) = Return s'
          \<and> hash (turns s' ! 0) = Some 7)"
  using C9_singleplayer_hash_sampling [of "stateOf (handle (TimerFired 101 102) exSingle)" 0 7]
  by (simp add: exSingle_eval turnCheck_def endTurn_def Let_def)

subsection \<open>Emission over a run\<close>



















section \<open>ClientGameRunner: catch-up, live turns, worker updates\<close>

lemma sentTurns_append [simp]:
  "sentTurns (xs @ ys) = sentTurns xs @ sentTurns ys"
  by (induction xs rule: sentTurns.induct) simp_all

lemma applyTurn_skips_seen:
  "turnNumber t < turnsSeen c \<Longrightarrow> applyTurn t c = c"
  by (simp add: applyTurn_def)

lemma fillGap_no_gap:
  "n \<le> turnsSeen c + 1 \<Longrightarrow> fillGap n c = c"
  by (simp add: fillGap.simps)

lemma applyTurn_next:
  "turnNumber t = turnsSeen c \<Longrightarrow>
   applyTurn t c = c\<lparr>effects := effects c @ [SendTurn t], turnsSeen := turnsSeen c + 1\<rparr>"
  by (simp add: applyTurn_def fillGap_no_gap)

lemma fillGap_sends:
  "sentTurns (effects (fillGap n c))
     = sentTurns (effects c) @ map emptyTurn [turnsSeen c..<n - 1]
   \<and> turnsSeen (fillGap n c) = max (turnsSeen c) (n - 1)"
proof (induction n c rule: fillGap.induct)
  case (1 n c)
  show ?case
  proof (cases "int n - 1 > int (turnsSeen c)")
    case False
    then show ?thesis by (simp add: fillGap.simps)
  next
    case True
    then have lt: "turnsSeen c < n - 1" by linarith
    from "1.IH" [OF True] lt show ?thesis
      by (subst (1 2) fillGap.simps) (simp add: True emptyTurn_def upt_conv_Cons)
  qed
qed

lemma applyTurn_ahead:
  assumes "turnsSeen c < turnNumber t"
  shows "sentTurns (effects (applyTurn t c))
           = sentTurns (effects c) @ map emptyTurn [turnsSeen c..<turnNumber t - 1] @ [t]
         \<and> turnsSeen (applyTurn t c) = turnNumber t"
proof -
  from assms have "max (turnsSeen c) (turnNumber t - 1) = turnNumber t - 1" by simp
  with fillGap_sends [of "turnNumber t" c] assms show ?thesis
    by (simp add: applyTurn_def Let_def)
qed

lemma applyBatch_contiguous:
  "map turnNumber ts = [turnsSeen c..<turnsSeen c + length ts] \<Longrightarrow>
   sentTurns (effects (applyBatch ts c)) = sentTurns (effects c) @ ts
   \<and> turnsSeen (applyBatch ts c) = turnsSeen c + length ts"
proof (induction ts arbitrary: c)
  case Nil
  then show ?case by simp
next
  case (Cons t ts)
  have "[turnsSeen c..<turnsSeen c + length (t # ts)]
        = turnsSeen c # [Suc (turnsSeen c)..<Suc (turnsSeen c) + length ts]"
    by (simp add: upt_conv_Cons del: upt_Suc)
  with Cons.prems have hd: "turnNumber t = turnsSeen c"
    and tl: "map turnNumber ts = [Suc (turnsSeen c)..<Suc (turnsSeen c) + length ts]"
    by simp_all
  let ?c' = "c\<lparr>effects := effects c @ [SendTurn t], turnsSeen := turnsSeen c + 1\<rparr>"
  have "map turnNumber ts = [turnsSeen ?c'..<turnsSeen ?c' + length ts]"
    using tl by simp
  from Cons.IH [OF this] show ?case
    by (simp add: applyTurn_next [OF hd])
qed

text \<open>
  Claim C1 at two start messages received by a fresh runner (turns-seen counter 0).
  A batch holding only turn 2: the worker is handed the synthesized turn 0 and then
  turn 2, turn 1 is never sent, and the counter ends at 2. A batch holding turns 1 and 3:
  the worker is handed turn 1, then a synthesized turn also numbered 1, then turn 3.
\<close>

theorem C1_gap_fill_stops_one_short:
  "map turnNumber (sentTurns (effects (stateOf
       (onmessage 0 (StartMsg [emptyTurn 2]) exRunner)))) = [0, 2]
   \<and> turnsSeen (stateOf (onmessage 0 (StartMsg [emptyTurn 2]) exRunner)) = 2
   \<and> map turnNumber (sentTurns (effects (stateOf
       (onmessage 0 (StartMsg [emptyTurn 1, emptyTurn 3]) exRunner)))) = [1, 1, 3]"
  by (simp add: onmessage_def exRunner_def newClientGameRunner_def emptyTurn_def
        applyTurn_def fillGap.simps Let_def)

text \<open>
  Claim C3, as stated, fails: on an update carrying the hash 42 for tick 10 the runner
  first calls \<open>transport.turnComplete()\<close> and only then emits the hash report.
\<close>

theorem C3_turn_complete_first_counterexample:
  "effects (stateOf (onWorkerUpdate (GameUpdateViewData [(10, 42)] []) exRunner))
   = [TurnCompleteCall, EmitSendHash 10 42, GameViewUpdate, RendererTick]"
  by (simp add: onWorkerUpdate_def exRunner_def newClientGameRunner_def Let_def)

text \<open>
  Claim C3, amended. For every non-error update delivered by the simulation worker (the
  lobby's \<open>gameStartInfo\<close> being present), the runner first signals "turn complete" to
  the transport and only then emits the hash reports of that update, in the update's
  order, followed by the view update, the renderer tick and (for a win update with a
  known player) the saving of the game. An error update signals neither: it shows the
  error and stops the runner. Without \<open>gameStartInfo\<close> the callback throws before it
  does anything.
\<close>

theorem C3_turn_complete_then_hashes:
  "(lobbyHasGameStartInfo c \<longrightarrow>
      effects (stateOf (onWorkerUpdate (GameUpdateViewData hs ws) c))
        = effects c @ [TurnCompleteCall] @ map (\<lambda>(tick, h). EmitSendHash tick h) hs
            @ [GameViewUpdate, RendererTick]
            @ (case ws of [] \<Rightarrow> [] | w # _ \<Rightarrow> if myPlayerKnown c then [SaveGame w] else [])
      \<and> effects (stateOf (onWorkerUpdate (ErrorUpdate errMsg) c))
        = effects c @ [ShowErrorModal errMsg]
            @ (if isActive c
               then [WorkerCleanup, LeaveGame]
                    @ (if connectionCheckInterval c then [ClearConnectionCheck] else [])
               else []))
   \<and> (\<not> lobbyHasGameStartInfo c \<longrightarrow> onWorkerUpdate gu c = Throw MissingGameStartInfo c)"
  by (simp add: onWorkerUpdate_def saveGame_def stop_def Let_def split: list.splits)

theorem C3_turn_complete_then_hashes_witness:
  "lobbyHasGameStartInfo (runnerStart 0 exRunner)
   \<and> effects (stateOf (onWorkerUpdate (GameUpdateViewData [(10, 42), (11, 43)] [])
                (runnerStart 0 exRunner)))
     = effects (runnerStart 0 exRunner)
       @ [TurnCompleteCall, EmitSendHash 10 42, EmitSendHash 11 43, GameViewUpdate, RendererTick]
   \<and> effects (stateOf (onWorkerUpdate (ErrorUpdate ''boom'') (runnerStart 0 exRunner)))
     = effects (runnerStart 0 exRunner) @ [ShowErrorModal ''boom'', WorkerCleanup, LeaveGame]
   \<and> effects (stateOf (onWorkerUpdate (ErrorUpdate ''boom'')
                (armConnectionCheck (runnerStart 0 exRunner))))
     = effects (runnerStart 0 exRunner)
       @ [ShowErrorModal ''boom'', WorkerCleanup, LeaveGame, ClearConnectionCheck]
   \<and> \<not> lobbyHasGameStartInfo (newClientGameRunner False 0)
   \<and> onWorkerUpdate (GameUpdateViewData [(10, 42)] []) (newClientGameRunner False 0)
     = Throw MissingGameStartInfo (newClientGameRunner False 0)"
  using C3_turn_complete_then_hashes [of "runnerStart 0 exRunner" "[(10, 42), (11, 43)]" "[]"
          "''boom''" "GameUpdateViewData [(10, 42)] []"]
    C3_turn_complete_then_hashes [of "armConnectionCheck (runnerStart 0 exRunner)" "[]" "[]"
          "''boom''" "GameUpdateViewData [(10, 42)] []"]
    C3_turn_complete_then_hashes [of "newClientGameRunner False 0" "[]" "[]"
          "''boom''" "GameUpdateViewData [(10, 42)] []"]
  by (simp add: exRunner_def newClientGameRunner_def runnerStart_def armConnectionCheck_def)

text \<open>
  Claim C10, as stated, fails before the client has joined: a fresh runner (counter 0,
  not joined) that receives the live turn 0 does not apply it and keeps the counter at 0,
  although the turn number equals the counter; it asks to join instead.
\<close>

theorem C10_not_joined_counterexample:
  "turnNumber (emptyTurn 0) = turnsSeen exRunner
   \<and> sentTurns (effects (stateOf (onmessage 1 (TurnMsg (emptyTurn 0)) exRunner))) = []
   \<and> turnsSeen (stateOf (onmessage 1 (TurnMsg (emptyTurn 0)) exRunner)) = 0
   \<and> effects (stateOf (onmessage 1 (TurnMsg (emptyTurn 0)) exRunner)) = [JoinGame 0]"
  by (simp add: onmessage_def exRunner_def newClientGameRunner_def emptyTurn_def Let_def)

text \<open>
  Claim C10, amended. When a live turn message arrives whose turn number differs from
  the turns-seen counter, the turn is not handed to the worker and the counter is
  unchanged. Once the client has joined (a start message was received), a live turn
  whose number equals the counter is handed to the worker and the counter grows by one.
  Before the client has joined, no live turn is handed to the worker, the counter is
  unchanged, and a join request with last turn 0 is sent.
\<close>

theorem C10_live_turn_amended:
  "(turnNumber t \<noteq> turnsSeen c \<longrightarrow>
      sentTurns (effects (stateOf (onmessage now (TurnMsg t) c))) = sentTurns (effects c)
      \<and> turnsSeen (stateOf (onmessage now (TurnMsg t) c)) = turnsSeen c)
   \<and> (hasJoined c \<and> turnNumber t = turnsSeen c \<longrightarrow>
      effects (stateOf (onmessage now (TurnMsg t) c)) = effects c @ [SendTurn t]
      \<and> turnsSeen (stateOf (onmessage now (TurnMsg t) c)) = turnsSeen c + 1)
   \<and> (\<not> hasJoined c \<longrightarrow>
      effects (stateOf (onmessage now (TurnMsg t) c)) = effects c @ [JoinGame 0]
      \<and> turnsSeen (stateOf (onmessage now (TurnMsg t) c)) = turnsSeen c)"
  by (simp add: onmessage_def Let_def)

theorem C10_live_turn_amended_witness:
  "hasJoined (stateOf (onmessage 0 (StartMsg []) exRunner))
   \<and> turnNumber (emptyTurn 0) = turnsSeen (stateOf (onmessage 0 (StartMsg []) exRunner))
   \<and> effects (stateOf (onmessage 1 (TurnMsg (emptyTurn 0))
                 (stateOf (onmessage 0 (StartMsg []) exRunner)))) = [SendTurn (emptyTurn 0)]
   \<and> turnNumber (emptyTurn 5) \<noteq> turnsSeen (stateOf (onmessage 0 (StartMsg []) exRunner))
   \<and> sentTurns (effects (stateOf (onmessage 1 (TurnMsg (emptyTurn 5))
                 (stateOf (onmessage 0 (StartMsg []) exRunner))))) = []
   \<and> \<not> hasJoined exRunner
   \<and> effects (stateOf (onmessage 1 (TurnMsg (emptyTurn 0)) exRunner)) = [JoinGame 0]"
  using C10_live_turn_amended [of "emptyTurn 0" "stateOf (onmessage 0 (StartMsg []) exRunner)" 1]
    C10_live_turn_amended [of "emptyTurn 5" "stateOf (onmessage 0 (StartMsg []) exRunner)" 1]
    C10_live_turn_amended [of "emptyTurn 0" exRunner 1]
  by (simp add: onmessage_def exRunner_def newClientGameRunner_def emptyTurn_def Let_def)

section \<open>Transport: the outbound buffer\<close>

















end
